theory Spec2Isabelle
  imports Main
begin

section \<open>The pandas fragment used by GetDummies\<close>

text \<open>
  The encoder of the notebook is the class \<open>GetDummies\<close>. Its methods call four
  operations of the pandas library on a DataFrame: \<open>X.select_dtypes(dtypes)\<close>,
  \<open>pd.get_dummies(X, columns=...)\<close>, the assignment \<open>X[c] = 0\<close> and the selection
  \<open>X[labels]\<close>. This section models those operations as pandas performs them,
  with the exceptions they raise: a raise is a value \<open>Inl e\<close>. Cells are integers,
  strings or missing; floats, booleans and dates are left out.
\<close>

datatype error = KeyError | TypeError | ValueError

text \<open>A cell is missing, an integer or a string.\<close>

datatype val = NaN | IntV int | StrV string

text \<open>
  The dtype of a column; a categorical dtype carries its categories. \<open>dtag\<close> is what a
  dtype selector names: the default selectors \<open>[object, 'category']\<close> of the encoder
  are \<open>[TObject, TCategory]\<close>.
\<close>

datatype dtype = Int64 | UInt8 | Object | Category "val list"

datatype dtag = TInt64 | TUInt8 | TObject | TCategory

fun dtag_of :: "dtype \<Rightarrow> dtag" where
  "dtag_of Int64 = TInt64"
| "dtag_of UInt8 = TUInt8"
| "dtag_of Object = TObject"
| "dtag_of (Category cats) = TCategory"

record column =
  cname :: string
  cdtype :: dtype
  cvalues :: "val list"

text \<open>
  A DataFrame: the length of its index and its columns in order. Column names may
  repeat, as pandas allows.
\<close>

record DataFrame =
  index_len :: nat
  series :: "column list"

definition columns :: "DataFrame \<Rightarrow> string list" where
  "columns X = map cname (series X)"

text \<open>
  \<open>X.select_dtypes(include)\<close>: the columns whose dtype is named by \<open>include\<close>, in
  their order; pandas raises ValueError when \<open>include\<close> (and \<open>exclude\<close>) is empty.
\<close>

definition select_dtypes :: "dtag list \<Rightarrow> DataFrame \<Rightarrow> error + DataFrame" where
  "select_dtypes include X =
     (if include = [] then Inl ValueError
      else Inr (X\<lparr>series := filter (\<lambda>c. dtag_of (cdtype c) \<in> set include) (series X)\<rparr>))"

text \<open>\<open>X.select_dtypes(exclude=...)\<close>, as \<open>get_dummies\<close> calls it.\<close>

definition exclude_dtypes :: "dtag list \<Rightarrow> DataFrame \<Rightarrow> DataFrame" where
  "exclude_dtypes exclude X =
     X\<lparr>series := filter (\<lambda>c. dtag_of (cdtype c) \<notin> set exclude) (series X)\<rparr>"

text \<open>
  \<open>X[labels]\<close> with a list (or Index) of labels: for each label in turn, every column
  of that name, so a name that two columns share is returned twice; KeyError when a label
  names no column.
\<close>

definition getitem_list :: "DataFrame \<Rightarrow> string list \<Rightarrow> error + DataFrame" where
  "getitem_list X labels =
     (if set labels \<subseteq> set (columns X)
      then Inr (X\<lparr>series := concat (map (\<lambda>l. filter (\<lambda>c. cname c = l) (series X)) labels)\<rparr>)
      else Inl KeyError)"

text \<open>\<open>X.drop(labels, axis=1)\<close>: KeyError when a label names no column.\<close>

definition drop_columns :: "string list \<Rightarrow> DataFrame \<Rightarrow> error + DataFrame" where
  "drop_columns labels X =
     (if set labels \<subseteq> set (columns X)
      then Inr (X\<lparr>series := filter (\<lambda>c. cname c \<notin> set labels) (series X)\<rparr>)
      else Inl KeyError)"

text \<open>\<open>X[c] = 0\<close>: overwrites the columns named \<open>c\<close>, or appends a new column.\<close>

definition zero_column :: "nat \<Rightarrow> string \<Rightarrow> column" where
  "zero_column n c = \<lparr>cname = c, cdtype = Int64, cvalues = replicate n (IntV 0)\<rparr>"

definition setitem_zero :: "string \<Rightarrow> DataFrame \<Rightarrow> DataFrame" where
  "setitem_zero c X =
     (if c \<in> set (columns X)
      then X\<lparr>series := map (\<lambda>k. if cname k = c then zero_column (index_len X) c else k) (series X)\<rparr>
      else X\<lparr>series := series X @ [zero_column (index_len X) c]\<rparr>)"

text \<open>
  \<open>pd.concat(objs, axis=1)\<close> of frames on one index: their columns side by side;
  ValueError (no objects to concatenate) on an empty list.
\<close>

definition concat_axis1 :: "DataFrame list \<Rightarrow> error + DataFrame" where
  "concat_axis1 objs =
     (case objs of
        [] \<Rightarrow> Inl ValueError
      | X # _ \<Rightarrow> Inr \<lparr>index_len = index_len X, series = concat (map series objs)\<rparr>)"

subsection \<open>Levels of a column and their names\<close>

text \<open>Python's \<open>str\<close> of a level.\<close>

fun str_nat :: "nat \<Rightarrow> string" where
  "str_nat n =
     (if n < 10 then [''0123456789'' ! n]
      else str_nat (n div 10) @ [''0123456789'' ! (n mod 10)])"

declare str_nat.simps [simp del]

fun str_val :: "val \<Rightarrow> string" where
  "str_val NaN = ''nan''"
| "str_val (IntV i) = (if i < 0 then ''-'' @ str_nat (nat (- i)) else str_nat (nat i))"
| "str_val (StrV s) = s"

text \<open>
  The order in which the levels are sorted, as in the notebook's Python 2: numbers before
  strings, strings by code point.
\<close>

fun str_le :: "string \<Rightarrow> string \<Rightarrow> bool" where
  "str_le [] ys = True"
| "str_le (x # xs) [] = False"
| "str_le (x # xs) (y # ys) =
     ((of_char x :: nat) < of_char y \<or> (x = y \<and> str_le xs ys))"

fun val_le :: "val \<Rightarrow> val \<Rightarrow> bool" where
  "val_le NaN w = True"
| "val_le (IntV i) NaN = False"
| "val_le (IntV i) (IntV j) = (i \<le> j)"
| "val_le (IntV i) (StrV t) = True"
| "val_le (StrV s) (StrV t) = str_le s t"
| "val_le (StrV s) w = False"

fun insort_val :: "val \<Rightarrow> val list \<Rightarrow> val list" where
  "insort_val v [] = [v]"
| "insort_val v (w # ws) = (if val_le v w then v # w # ws else w # insort_val v ws)"

definition sort_vals :: "val list \<Rightarrow> val list" where
  "sort_vals vs = foldr insort_val vs []"

text \<open>
  The levels \<open>get_dummies\<close> gives a column: the categories of a categorical column,
  else the distinct values that are not missing, sorted.
\<close>

definition levels_of :: "column \<Rightarrow> val list" where
  "levels_of c =
     (case cdtype c of
        Category cats \<Rightarrow> cats
      | _ \<Rightarrow> sort_vals (remdups (filter (\<lambda>v. v \<noteq> NaN) (cvalues c))))"

text \<open>
  One indicator column per level, named \<open>prefix_level\<close>; a column without levels gives
  a frame without columns.
\<close>

definition get_dummies_1d :: "nat \<Rightarrow> column \<Rightarrow> DataFrame" where
  "get_dummies_1d n c =
     \<lparr>index_len = n,
      series = map (\<lambda>l. \<lparr>cname = cname c @ ''_'' @ str_val l, cdtype = UInt8,
                         cvalues = map (\<lambda>v. if v = l then IntV 1 else IntV 0) (cvalues c)\<rparr>)
                   (levels_of c)\<rparr>"

text \<open>
  \<open>pd.get_dummies(data, columns=cs)\<close>. The columns to encode are \<open>data[cs]\<close>, of any
  dtype, which raises KeyError when a label names no column; with \<open>columns=None\<close> they
  are the object and category columns. The result is the concatenation of the columns
  that are not encoded (nothing, when every column is encoded) and the indicator columns
  of each encoded column in turn; on a frame without columns there is nothing to
  concatenate and pandas raises ValueError.
\<close>

definition get_dummies :: "DataFrame \<Rightarrow> string list option \<Rightarrow> error + DataFrame" where
  "get_dummies data cs =
     (case (case cs of
              None \<Rightarrow> select_dtypes [TObject, TCategory] data
            | Some labels \<Rightarrow> getitem_list data labels) of
        Inl e \<Rightarrow> Inl e
      | Inr data_to_encode \<Rightarrow>
          (case (if length (series data_to_encode) = length (series data) then Inr []
                 else (case cs of
                         None \<Rightarrow> Inr [exclude_dtypes [TObject, TCategory] data]
                       | Some labels \<Rightarrow>
                           (case drop_columns labels data of
                              Inl e \<Rightarrow> Inl e
                            | Inr rest \<Rightarrow> Inr [rest]))) of
             Inl e \<Rightarrow> Inl e
           | Inr with_dummies \<Rightarrow>
               concat_axis1
                 (with_dummies @ map (get_dummies_1d (index_len data)) (series data_to_encode))))"

section \<open>The encoder\<close>

text \<open>
  The fields of \<open>GetDummies\<close>; \<open>None\<close> is Python's \<open>None\<close>, the value both column
  fields have until \<open>fit\<close> sets them.
\<close>

record GetDummies =
  input_columns :: "string list option"
  final_columns :: "string list option"
  dtypes :: "dtag list"

definition init :: "dtag list option \<Rightarrow> GetDummies" where
  "init ds =
     \<lparr>input_columns = None, final_columns = None,
      dtypes = (case ds of None \<Rightarrow> [TObject, TCategory] | Some d \<Rightarrow> d)\<rparr>"

text \<open>
  \<open>fit\<close> assigns \<open>input_columns\<close> before it expands and \<open>final_columns\<close> after, so an
  error of the expansion leaves the first assignment done. The result is the encoder
  after the call and the error raised, if any.
\<close>

definition fit :: "GetDummies \<Rightarrow> DataFrame \<Rightarrow> GetDummies \<times> error option" where
  "fit self X =
     (case select_dtypes (dtypes self) X of
        Inl e \<Rightarrow> (self, Some e)
      | Inr sel \<Rightarrow>
          (let self1 = self\<lparr>input_columns := Some (columns sel)\<rparr> in
           case get_dummies X (input_columns self1) of
             Inl e \<Rightarrow> (self1, Some e)
           | Inr X1 \<Rightarrow> (self1\<lparr>final_columns := Some (columns X1)\<rparr>, None)))"

text \<open>
  \<open>transform\<close>. The loop \<open>for c in missing\<close> runs over a Python set, whose order is
  not fixed: \<open>ord\<close> is the order in which the set is run through, a rearrangement of the
  missing names.
\<close>

definition missing_names :: "string list \<Rightarrow> string list \<Rightarrow> string list" where
  "missing_names fc xc = remdups (filter (\<lambda>c. c \<notin> set xc) fc)"

definition transform_ord ::
  "(string list \<Rightarrow> string list) \<Rightarrow> GetDummies \<Rightarrow> DataFrame \<Rightarrow> error + DataFrame" where
  "transform_ord ord self X =
     (case get_dummies X (input_columns self) of
        Inl e \<Rightarrow> Inl e
      | Inr X1 \<Rightarrow>
          (case final_columns self of
             None \<Rightarrow> Inl TypeError
           | Some fc \<Rightarrow>
               getitem_list (fold setitem_zero (ord (missing_names fc (columns X1))) X1) fc))"

definition transform :: "GetDummies \<Rightarrow> DataFrame \<Rightarrow> error + DataFrame" where
  "transform self X = transform_ord (\<lambda>ms. ms) self X"

definition get_feature_names :: "GetDummies \<Rightarrow> error + string list" where
  "get_feature_names self =
     (case final_columns self of None \<Rightarrow> Inl TypeError | Some fc \<Rightarrow> Inr fc)"

text \<open>
  \<open>fit_transform\<close> is inherited from \<open>sklearn.base.TransformerMixin\<close>, which returns
  \<open>self.fit(X).transform(X)\<close>.
\<close>

definition fit_transform :: "GetDummies \<Rightarrow> DataFrame \<Rightarrow> GetDummies \<times> (error + DataFrame)" where
  "fit_transform self X =
     (case fit self X of
        (self1, Some e) \<Rightarrow> (self1, Inl e)
      | (self1, None) \<Rightarrow> (self1, transform self1 X))"

section \<open>Example frames\<close>

text \<open>The two frames of the notebook's demonstration of train/test splits.\<close>

definition df1 :: DataFrame where
  "df1 = \<lparr>index_len = 2, series =
     [\<lparr>cname = ''foo'', cdtype = Int64, cvalues = [IntV 1, IntV 2]\<rparr>,
      \<lparr>cname = ''bar'', cdtype = Object, cvalues = [StrV ''a'', StrV ''c'']\<rparr>,
      \<lparr>cname = ''baz'', cdtype = Object, cvalues = [StrV ''b'', StrV ''d'']\<rparr>,
      \<lparr>cname = ''grok'', cdtype = Object, cvalues = [StrV ''hi'', StrV ''there'']\<rparr>]\<rparr>"

definition df2 :: DataFrame where
  "df2 = \<lparr>index_len = 3, series =
     [\<lparr>cname = ''foo'', cdtype = Int64, cvalues = [IntV 3, IntV 4, IntV 4]\<rparr>,
      \<lparr>cname = ''bar'', cdtype = Object, cvalues = [StrV ''a'', StrV ''c'', StrV ''c'']\<rparr>,
      \<lparr>cname = ''baz'', cdtype = Object, cvalues = [StrV ''e'', StrV ''b'', StrV ''b'']\<rparr>,
      \<lparr>cname = ''grok'', cdtype = Object,
        cvalues = [StrV ''whoa'', StrV ''whoa'', StrV ''there'']\<rparr>,
      \<lparr>cname = ''new'', cdtype = Int64, cvalues = [IntV 0, IntV 0, IntV 0]\<rparr>]\<rparr>"

text \<open>
  What the notebook prints for \<open>fit_transform(df1)\<close> and for \<open>transform(df2)\<close>,
  the encoder fitted on \<open>df1\<close>, and the expansion of \<open>df2\<close> before it is
  reconciled. Indicator columns are \<open>uint8\<close>; a column that \<open>transform\<close> adds is
  \<open>int64\<close>.
\<close>

definition df1_encoded :: DataFrame where
  "df1_encoded = \<lparr>index_len = 2, series =
     [\<lparr>cname = ''foo'', cdtype = Int64, cvalues = [IntV 1, IntV 2]\<rparr>,
      \<lparr>cname = ''bar_a'', cdtype = UInt8, cvalues = [IntV 1, IntV 0]\<rparr>,
      \<lparr>cname = ''bar_c'', cdtype = UInt8, cvalues = [IntV 0, IntV 1]\<rparr>,
      \<lparr>cname = ''baz_b'', cdtype = UInt8, cvalues = [IntV 1, IntV 0]\<rparr>,
      \<lparr>cname = ''baz_d'', cdtype = UInt8, cvalues = [IntV 0, IntV 1]\<rparr>,
      \<lparr>cname = ''grok_hi'', cdtype = UInt8, cvalues = [IntV 1, IntV 0]\<rparr>,
      \<lparr>cname = ''grok_there'', cdtype = UInt8, cvalues = [IntV 0, IntV 1]\<rparr>]\<rparr>"

definition df2_encoded :: DataFrame where
  "df2_encoded = \<lparr>index_len = 3, series =
     [\<lparr>cname = ''foo'', cdtype = Int64, cvalues = [IntV 3, IntV 4, IntV 4]\<rparr>,
      \<lparr>cname = ''bar_a'', cdtype = UInt8, cvalues = [IntV 1, IntV 0, IntV 0]\<rparr>,
      \<lparr>cname = ''bar_c'', cdtype = UInt8, cvalues = [IntV 0, IntV 1, IntV 1]\<rparr>,
      \<lparr>cname = ''baz_b'', cdtype = UInt8, cvalues = [IntV 0, IntV 1, IntV 1]\<rparr>,
      \<lparr>cname = ''baz_d'', cdtype = Int64, cvalues = [IntV 0, IntV 0, IntV 0]\<rparr>,
      \<lparr>cname = ''grok_hi'', cdtype = Int64, cvalues = [IntV 0, IntV 0, IntV 0]\<rparr>,
      \<lparr>cname = ''grok_there'', cdtype = UInt8, cvalues = [IntV 0, IntV 0, IntV 1]\<rparr>]\<rparr>"

definition df2_dummies :: DataFrame where
  "df2_dummies = \<lparr>index_len = 3, series =
     [\<lparr>cname = ''foo'', cdtype = Int64, cvalues = [IntV 3, IntV 4, IntV 4]\<rparr>,
      \<lparr>cname = ''new'', cdtype = Int64, cvalues = [IntV 0, IntV 0, IntV 0]\<rparr>,
      \<lparr>cname = ''bar_a'', cdtype = UInt8, cvalues = [IntV 1, IntV 0, IntV 0]\<rparr>,
      \<lparr>cname = ''bar_c'', cdtype = UInt8, cvalues = [IntV 0, IntV 1, IntV 1]\<rparr>,
      \<lparr>cname = ''baz_b'', cdtype = UInt8, cvalues = [IntV 0, IntV 1, IntV 1]\<rparr>,
      \<lparr>cname = ''baz_e'', cdtype = UInt8, cvalues = [IntV 1, IntV 0, IntV 0]\<rparr>,
      \<lparr>cname = ''grok_there'', cdtype = UInt8, cvalues = [IntV 0, IntV 0, IntV 1]\<rparr>,
      \<lparr>cname = ''grok_whoa'', cdtype = UInt8, cvalues = [IntV 1, IntV 1, IntV 0]\<rparr>]\<rparr>"

definition fitted1 :: GetDummies where
  "fitted1 = \<lparr>input_columns = Some [''bar'', ''baz'', ''grok''],
     final_columns = Some [''foo'', ''bar_a'', ''bar_c'', ''baz_b'', ''baz_d'', ''grok_hi'', ''grok_there''],
     dtypes = [TObject, TCategory]\<rparr>"


definition foo_twice :: DataFrame where
  "foo_twice = \<lparr>index_len = 1, series =
     [\<lparr>cname = ''foo'', cdtype = Int64, cvalues = [IntV 1]\<rparr>,
      \<lparr>cname = ''foo'', cdtype = Int64, cvalues = [IntV 2]\<rparr>]\<rparr>"

definition foo_int_and_text :: DataFrame where
  "foo_int_and_text = \<lparr>index_len = 1, series =
     [\<lparr>cname = ''foo'', cdtype = Int64, cvalues = [IntV 1]\<rparr>,
      \<lparr>cname = ''foo'', cdtype = Object, cvalues = [StrV ''x'']\<rparr>]\<rparr>"

text \<open>
  Frames for the corner cases: a frame without columns, a frame with one numeric
  column, a frame with one text column, and a frame whose numeric column \<open>bar_a\<close>
  has the name of an indicator column of \<open>bar\<close>.
\<close>

definition no_columns :: DataFrame where
  "no_columns = \<lparr>index_len = 2, series = []\<rparr>"

definition only_foo :: DataFrame where
  "only_foo = \<lparr>index_len = 1, series =
     [\<lparr>cname = ''foo'', cdtype = Int64, cvalues = [IntV 1]\<rparr>]\<rparr>"

definition only_bar :: "string \<Rightarrow> DataFrame" where
  "only_bar v = \<lparr>index_len = 1, series =
     [\<lparr>cname = ''bar'', cdtype = Object, cvalues = [StrV v]\<rparr>]\<rparr>"

definition bar_a_and_bar :: "string \<Rightarrow> DataFrame" where
  "bar_a_and_bar v = \<lparr>index_len = 1, series =
     [\<lparr>cname = ''bar_a'', cdtype = Int64, cvalues = [IntV 5]\<rparr>,
      \<lparr>cname = ''bar'', cdtype = Object, cvalues = [StrV v]\<rparr>]\<rparr>"

section \<open>Lists of columns\<close>

lemma filter_name_unique:
  "distinct (map f xs) \<Longrightarrow> x \<in> set xs \<Longrightarrow> filter (\<lambda>c. f c = f x) xs = [x]"
proof (induction xs)
  case Nil
  then show ?case by simp
next
  case (Cons a xs)
  show ?case
  proof (cases "x = a")
    case True
    have "f a \<notin> f ` set xs"
      using Cons.prems(1) by simp
    then have "\<And>c. c \<in> set xs \<Longrightarrow> f c \<noteq> f a"
      by (metis imageI)
    then have "filter (\<lambda>c. f c = f a) xs = []"
      by (simp add: filter_empty_conv)
    with True show ?thesis by simp
  next
    case False
    with Cons.prems have "x \<in> set xs" and "f a \<noteq> f x" by auto
    with Cons show ?thesis by simp
  qed
qed

lemma concat_filter_names:
  "distinct (map f xs) \<Longrightarrow> set ys \<subseteq> set xs \<Longrightarrow>
   concat (map (\<lambda>l. filter (\<lambda>c. f c = l) xs) (map f ys)) = ys"
  by (induction ys) (simp_all add: filter_name_unique)

lemma setitem_zero_new:
  "c \<notin> set (columns X) \<Longrightarrow>
   setitem_zero c X = X\<lparr>series := series X @ [zero_column (index_len X) c]\<rparr>"
  by (simp add: setitem_zero_def)

lemma fold_setitem_zero:
  "distinct ms \<Longrightarrow> set ms \<inter> set (columns X) = {} \<Longrightarrow>
   fold setitem_zero ms X = X\<lparr>series := series X @ map (zero_column (index_len X)) ms\<rparr>"
proof (induction ms arbitrary: X)
  case Nil
  then show ?case by simp
next
  case (Cons m ms)
  let ?X' = "X\<lparr>series := series X @ [zero_column (index_len X) m]\<rparr>"
  have new: "setitem_zero m X = ?X'"
    using Cons.prems(2) by (simp add: setitem_zero_new)
  have "set ms \<inter> set (columns ?X') = {}"
    using Cons.prems by (auto simp: columns_def zero_column_def)
  with Cons.IH [of ?X'] Cons.prems(1)
  have "fold setitem_zero ms ?X' = ?X'\<lparr>series := series ?X' @ map (zero_column (index_len ?X')) ms\<rparr>"
    by simp
  with new show ?case by simp
qed

lemma filter_zero_columns:
  "distinct ms \<Longrightarrow>
   filter (\<lambda>k. cname k = l) (map (zero_column n) ms) = (if l \<in> set ms then [zero_column n l] else [])"
  by (induction ms) (auto simp: zero_column_def)

lemma missing_names_props:
  "distinct (missing_names fc xc)" "set (missing_names fc xc) = set fc - set xc"
  by (auto simp: missing_names_def)

lemma transform_ord_closed:
  assumes gd: "get_dummies X (input_columns self) = Inr X1"
    and fc: "final_columns self = Some fc"
    and ord: "\<And>ms. distinct ms \<Longrightarrow> distinct (ord ms) \<and> set (ord ms) = set ms"
  shows "transform_ord ord self X =
    Inr (X1\<lparr>series := concat (map (\<lambda>l. if l \<in> set (columns X1)
                                       then filter (\<lambda>k. cname k = l) (series X1)
                                       else [zero_column (index_len X1) l]) fc)\<rparr>)"
proof -
  let ?ms = "ord (missing_names fc (columns X1))"
  have dms: "distinct ?ms" and sms: "set ?ms = set fc - set (columns X1)"
    using ord [OF missing_names_props(1) [of fc "columns X1"]] missing_names_props(2) [of fc "columns X1"]
    by auto
  let ?X2 = "X1\<lparr>series := series X1 @ map (zero_column (index_len X1)) ?ms\<rparr>"
  have f: "fold setitem_zero ?ms X1 = ?X2"
    using fold_setitem_zero [OF dms, of X1] sms by auto
  have cols2: "set (columns ?X2) = set (columns X1) \<union> set ?ms"
    by (auto simp: columns_def zero_column_def)
  have sub: "set fc \<subseteq> set (columns ?X2)"
    using sms cols2 by auto
  have eq: "map (\<lambda>l. filter (\<lambda>c. cname c = l) (series ?X2)) fc =
        map (\<lambda>l. if l \<in> set (columns X1)
                                       then filter (\<lambda>k. cname k = l) (series X1)
                                       else [zero_column (index_len X1) l]) fc"
  proof (rule map_cong [OF refl])
    fix l assume l: "l \<in> set fc"
    show "filter (\<lambda>c. cname c = l) (series ?X2) =
       (if l \<in> set (columns X1) then filter (\<lambda>k. cname k = l) (series X1)
        else [zero_column (index_len X1) l])"
    proof (cases "l \<in> set (columns X1)")
      case True
      then have "l \<notin> set ?ms" using sms by simp
      with True show ?thesis by (simp add: filter_zero_columns [OF dms])
    next
      case False
      then have "l \<in> set ?ms" using sms l by simp
      moreover have "filter (\<lambda>k. cname k = l) (series X1) = []"
        using False by (auto simp: columns_def filter_empty_conv)
      ultimately show ?thesis using False by (simp add: filter_zero_columns [OF dms])
    qed
  qed
  have "transform_ord ord self X = getitem_list (fold setitem_zero ?ms X1) fc"
    by (simp add: transform_ord_def gd fc)
  also have "\<dots> = getitem_list ?X2 fc"
    by (simp only: f)
  also have "\<dots> = Inr (?X2\<lparr>series := concat (map (\<lambda>l. filter (\<lambda>c. cname c = l) (series ?X2)) fc)\<rparr>)"
    using sub unfolding getitem_list_def by (rule if_P)
  also have "\<dots> = Inr (X1\<lparr>series := concat (map (\<lambda>l. if l \<in> set (columns X1)
                                       then filter (\<lambda>k. cname k = l) (series X1)
                                       else [zero_column (index_len X1) l]) fc)\<rparr>)"
    unfolding eq by simp
  finally show ?thesis .
qed

lemma concat_axis1_ok: "objs \<noteq> [] \<Longrightarrow> \<exists>Y. concat_axis1 objs = Inr Y"
  by (cases objs) (simp_all add: concat_axis1_def)

lemma concat_axis1_index_len:
  "concat_axis1 objs = Inr Y \<Longrightarrow> list_all (\<lambda>obj. index_len obj = n) objs \<Longrightarrow> index_len Y = n"
  by (cases objs) (auto simp: concat_axis1_def)

lemma get_dummies_None_eq:
  "get_dummies X None =
     concat_axis1
       ((if length (filter (\<lambda>c. dtag_of (cdtype c) \<in> set [TObject, TCategory]) (series X))
            = length (series X)
         then [] else [exclude_dtypes [TObject, TCategory] X]) @
        map (get_dummies_1d (index_len X))
          (filter (\<lambda>c. dtag_of (cdtype c) \<in> set [TObject, TCategory]) (series X)))"
  by (simp add: get_dummies_def select_dtypes_def)

lemma get_dummies_Some_eq:
  "set labels \<subseteq> set (columns X) \<Longrightarrow>
   get_dummies X (Some labels) =
     concat_axis1
       ((if length (concat (map (\<lambda>l. filter (\<lambda>c. cname c = l) (series X)) labels))
            = length (series X)
         then [] else [X\<lparr>series := filter (\<lambda>c. cname c \<notin> set labels) (series X)\<rparr>]) @
        map (get_dummies_1d (index_len X))
          (concat (map (\<lambda>l. filter (\<lambda>c. cname c = l) (series X)) labels)))"
  by (simp add: get_dummies_def getitem_list_def drop_columns_def)

lemma get_dummies_label_absent:
  "\<not> set labels \<subseteq> set (columns X) \<Longrightarrow> get_dummies X (Some labels) = Inl KeyError"
  by (simp add: get_dummies_def getitem_list_def)

lemma get_dummies_index_len:
  assumes "get_dummies X cs = Inr X1"
  shows "index_len X1 = index_len X"
proof -
  have d: "list_all (\<lambda>obj. index_len obj = index_len X)
             (wd @ map (get_dummies_1d (index_len X)) enc)"
    if "list_all (\<lambda>obj. index_len obj = index_len X) wd" for wd enc
    using that by (auto simp: list_all_iff get_dummies_1d_def)
  show ?thesis
  proof (cases cs)
    case None
    show ?thesis
      using assms unfolding None get_dummies_None_eq
      by (rule concat_axis1_index_len) (rule d, simp add: exclude_dtypes_def)
  next
    case (Some labels)
    have sub: "set labels \<subseteq> set (columns X)"
      using assms Some get_dummies_label_absent [of labels X] by auto
    show ?thesis
      using assms unfolding Some get_dummies_Some_eq [OF sub]
      by (rule concat_axis1_index_len) (rule d, simp)
  qed
qed

lemma get_dummies_labels_ok:
  assumes sub: "set labels \<subseteq> set (columns X)" and ne: "series X \<noteq> []"
  shows "\<exists>X1. get_dummies X (Some labels) = Inr X1"
proof -
  let ?enc = "concat (map (\<lambda>l. filter (\<lambda>c. cname c = l) (series X)) labels)"
  have "length ?enc = length (series X) \<Longrightarrow> ?enc \<noteq> []"
    using ne by (metis length_0_conv)
  then show ?thesis
    unfolding get_dummies_Some_eq [OF sub]
    by (intro concat_axis1_ok) (simp only: append_is_Nil_conv map_is_Nil_conv split: if_splits, blast)
qed

lemma get_dummies_no_columns:
  "series X = [] \<Longrightarrow> get_dummies X (Some []) = Inl ValueError"
  by (simp add: get_dummies_def getitem_list_def concat_axis1_def)

lemma get_dummies_no_labels:
  "series X \<noteq> [] \<Longrightarrow> get_dummies X (Some []) = Inr X"
  by (simp add: get_dummies_def getitem_list_def drop_columns_def concat_axis1_def)

lemma get_dummies_None_no_columns:
  "series X = [] \<Longrightarrow> get_dummies X None = Inl ValueError"
  by (simp add: get_dummies_def select_dtypes_def concat_axis1_def)

lemma get_dummies_None_ok:
  assumes ne: "series X \<noteq> []"
  shows "\<exists>X1. get_dummies X None = Inr X1"
proof -
  let ?enc = "filter (\<lambda>c. dtag_of (cdtype c) \<in> set [TObject, TCategory]) (series X)"
  have "length ?enc = length (series X) \<Longrightarrow> ?enc \<noteq> []"
    using ne by (metis length_0_conv)
  then show ?thesis
    unfolding get_dummies_None_eq
    by (intro concat_axis1_ok) (simp only: append_is_Nil_conv map_is_Nil_conv split: if_splits, blast)
qed



section \<open>The result of transform in closed form\<close>

lemma transform_Inr_parts:
  assumes "transform self X = Inr Y"
  obtains X1 fc where "get_dummies X (input_columns self) = Inr X1" "final_columns self = Some fc"
  using assms by (auto simp: transform_def transform_ord_def split: sum.splits option.splits)

lemma transform_closed:
  assumes "get_dummies X (input_columns self) = Inr X1" and "final_columns self = Some fc"
  shows "transform self X =
    Inr (X1\<lparr>series := concat (map (\<lambda>l. if l \<in> set (columns X1)
                                       then filter (\<lambda>k. cname k = l) (series X1)
                                       else [zero_column (index_len X1) l]) fc)\<rparr>)"
  unfolding transform_def using assms by (rule transform_ord_closed) simp

lemma reconciled_names:
  "set (map cname (concat (map (\<lambda>l. if l \<in> set (columns X1)
                                       then filter (\<lambda>k. cname k = l) (series X1)
                                       else [zero_column (index_len X1) l]) fc))) = set fc"
proof (induction fc)
  case Nil
  show ?case by simp
next
  case (Cons l fc)
  have "l \<in> set (columns X1) \<Longrightarrow> cname ` set (filter (\<lambda>k. cname k = l) (series X1)) = {l}"
    by (auto simp: columns_def)
  with Cons show ?case by (simp add: zero_column_def)
qed

lemma reconciled_names_distinct:
  assumes "distinct (columns X1)"
  shows "map cname (concat (map (\<lambda>l. if l \<in> set (columns X1)
                                       then filter (\<lambda>k. cname k = l) (series X1)
                                       else [zero_column (index_len X1) l]) fc)) = fc"
proof (induction fc)
  case Nil
  show ?case by simp
next
  case (Cons l fc)
  have "l \<in> set (columns X1) \<Longrightarrow> map cname (filter (\<lambda>k. cname k = l) (series X1)) = [l]"
  proof -
    assume "l \<in> set (columns X1)"
    then obtain k where k: "k \<in> set (series X1)" "cname k = l"
      by (auto simp: columns_def)
    have "filter (\<lambda>c. cname c = cname k) (series X1) = [k]"
      using assms k(1) unfolding columns_def by (rule filter_name_unique)
    with k(2) show ?thesis by simp
  qed
  with Cons show ?case by (simp add: zero_column_def)
qed

lemma transform_names:
  assumes "transform self X = Inr Y"
    and "get_dummies X (input_columns self) = Inr X1"
    and "final_columns self = Some fc"
  shows "set (columns Y) = set fc \<and> (distinct (columns X1) \<longrightarrow> columns Y = fc)"
proof -
  have Y: "Y = X1\<lparr>series := concat (map (\<lambda>l. if l \<in> set (columns X1)
                                       then filter (\<lambda>k. cname k = l) (series X1)
                                       else [zero_column (index_len X1) l]) fc)\<rparr>"
    using assms transform_closed [OF assms(2,3)] by simp
  show ?thesis
    unfolding Y using reconciled_names [of X1 fc] reconciled_names_distinct [of X1 fc]
    by (simp add: columns_def)
qed

lemma reconciled_filter:
  assumes "c \<in> set fc" "c \<notin> set (columns X1)"
  shows "set (filter (\<lambda>k. cname k = c) (concat (map (\<lambda>l. if l \<in> set (columns X1)
                                       then filter (\<lambda>k. cname k = l) (series X1)
                                       else [zero_column (index_len X1) l]) fc)))
         = {zero_column (index_len X1) c}"
  using assms by (auto simp: zero_column_def columns_def)

lemma transform_zero_column:
  assumes "get_dummies X (input_columns self) = Inr X1"
    and "final_columns self = Some fc"
    and "c \<in> set fc" and "c \<notin> set (columns X1)"
  shows "\<exists>Y. transform self X = Inr Y \<and>
           set (filter (\<lambda>k. cname k = c) (series Y)) = {zero_column (index_len X) c}"
  using transform_closed [OF assms(1,2)] reconciled_filter [OF assms(3,4)]
    get_dummies_index_len [OF assms(1)]
  by simp

lemma transform_zero_cells:
  assumes "get_dummies X (input_columns self) = Inr X1"
    and "final_columns self = Some fc"
    and "c \<in> set fc" and "c \<notin> set (columns X1)"
  shows "\<exists>Y. transform self X = Inr Y \<and>
           filter (\<lambda>k. cname k = c) (series Y) \<noteq> [] \<and>
           list_all (\<lambda>k. cvalues k = replicate (index_len X) (IntV 0))
             (filter (\<lambda>k. cname k = c) (series Y))"
proof -
  from transform_zero_column [OF assms] obtain Y where
    Y: "transform self X = Inr Y"
    and z: "set (filter (\<lambda>k. cname k = c) (series Y)) = {zero_column (index_len X) c}"
    by blast
  from z have "filter (\<lambda>k. cname k = c) (series Y) \<noteq> []"
    by (metis empty_set insert_not_empty)
  moreover have "cvalues k = replicate (index_len X) (IntV 0)"
    if "k \<in> set (filter (\<lambda>k. cname k = c) (series Y))" for k
  proof -
    from that z have "k = zero_column (index_len X) c"
      by (simp only: singleton_iff)
    then show ?thesis
      by (simp add: zero_column_def)
  qed
  then have "list_all (\<lambda>k. cvalues k = replicate (index_len X) (IntV 0))
             (filter (\<lambda>k. cname k = c) (series Y))"
    unfolding list_all_iff by blast
  ultimately show ?thesis using Y by blast
qed

lemma getitem_own_columns:
  "distinct (columns X1) \<Longrightarrow>
   concat (map (\<lambda>l. if l \<in> set (columns X1)
                     then filter (\<lambda>k. cname k = l) (series X1)
                     else [zero_column (index_len X1) l]) (columns X1)) = series X1"
proof -
  assume d: "distinct (columns X1)"
  have eq: "map (\<lambda>l. if l \<in> set (columns X1)
                     then filter (\<lambda>k. cname k = l) (series X1)
                     else [zero_column (index_len X1) l]) (columns X1)
        = map (\<lambda>l. filter (\<lambda>k. cname k = l) (series X1)) (columns X1)"
    by (rule map_cong) simp_all
  have c: "concat (map (\<lambda>l. filter (\<lambda>k. cname k = l) (series X1)) (columns X1)) = series X1"
    using concat_filter_names [OF d [unfolded columns_def] subset_refl]
    by (simp only: columns_def)
  show ?thesis by (simp only: eq c)
qed

section \<open>What fit records\<close>

lemma fit_parts:
  assumes "fit self T = (self', None)"
  obtains sel X1 where "select_dtypes (dtypes self) T = Inr sel"
    and "get_dummies T (Some (columns sel)) = Inr X1"
    and "self' = self\<lparr>input_columns := Some (columns sel), final_columns := Some (columns X1)\<rparr>"
  using assms by (auto simp: fit_def Let_def split: sum.splits)

lemma fit_returns:
  assumes "dtypes self \<noteq> []" and "series T \<noteq> []"
  shows "\<exists>sel X1. select_dtypes (dtypes self) T = Inr sel \<and>
           get_dummies T (Some (columns sel)) = Inr X1 \<and>
           fit self T = (self\<lparr>input_columns := Some (columns sel),
                              final_columns := Some (columns X1)\<rparr>, None)"
proof -
  let ?sel = "T\<lparr>series := filter (\<lambda>c. dtag_of (cdtype c) \<in> set (dtypes self)) (series T)\<rparr>"
  have sel: "select_dtypes (dtypes self) T = Inr ?sel"
    using assms(1) by (simp add: select_dtypes_def)
  have "set (columns ?sel) \<subseteq> set (columns T)"
    by (auto simp: columns_def)
  then obtain X1 where g: "get_dummies T (Some (columns ?sel)) = Inr X1"
    using get_dummies_labels_ok assms(2) by blast
  have "fit self T = (self\<lparr>input_columns := Some (columns ?sel),
                              final_columns := Some (columns X1)\<rparr>, None)"
    using sel g by (simp add: fit_def)
  with sel g show ?thesis by blast
qed

lemma fit_raises:
  assumes "dtypes self = [] \<or> series T = []"
  shows "snd (fit self T) = Some ValueError"
proof (cases "dtypes self = []")
  case True
  then show ?thesis by (simp add: fit_def select_dtypes_def)
next
  case False
  with assms have e: "series T = []" by simp
  then show ?thesis
    using False by (simp add: fit_def select_dtypes_def columns_def get_dummies_no_columns)
qed

lemma fit_returns_iff:
  "(snd (fit self T) = None) = (dtypes self \<noteq> [] \<and> series T \<noteq> [])"
proof (cases "dtypes self \<noteq> [] \<and> series T \<noteq> []")
  case True
  then obtain s where "fit self T = (s, None)"
    using fit_returns [of self T] by blast
  with True show ?thesis by simp
next
  case False
  then have "snd (fit self T) = Some ValueError"
    using fit_raises [of self T] by blast
  with False show ?thesis by simp
qed

lemma passthrough_in_expansion:
  assumes d: "distinct (columns T)" and k: "k \<in> set (series T)" and nP: "\<not> P k"
    and g: "get_dummies T (Some (map cname (filter P (series T)))) = Inr X1"
  shows "cname k \<in> set (columns X1)"
proof -
  let ?labels = "map cname (filter P (series T))"
  let ?enc = "concat (map (\<lambda>l. filter (\<lambda>c. cname c = l) (series T)) ?labels)"
  let ?rest = "T\<lparr>series := filter (\<lambda>c. cname c \<notin> set ?labels) (series T)\<rparr>"
  have sub: "set ?labels \<subseteq> set (columns T)"
    by (auto simp: columns_def)
  have enc: "?enc = filter P (series T)"
    using d unfolding columns_def by (rule concat_filter_names) simp
  have "length (filter P (series T)) < length (series T)"
    using k nP by (rule length_filter_less)
  then have ne: "length ?enc \<noteq> length (series T)"
    using enc by simp
  have inj: "inj_on cname (set (series T))"
    using d by (simp add: columns_def distinct_map)
  have "cname k \<notin> set ?labels"
  proof
    assume "cname k \<in> set ?labels"
    then obtain j where j: "j \<in> set (series T)" "P j" "cname j = cname k"
      by auto
    with inj k have "j = k" by (auto dest: inj_onD)
    with j nP show False by simp
  qed
  with k have kr: "k \<in> set (series ?rest)" by simp
  have "get_dummies T (Some ?labels) =
          concat_axis1 (?rest # map (get_dummies_1d (index_len T)) ?enc)"
    using get_dummies_Some_eq [OF sub] ne by simp
  with g have "series X1 = series ?rest @ concat (map series (map (get_dummies_1d (index_len T)) ?enc))"
    by (auto simp: concat_axis1_def)
  with kr show ?thesis
    by (simp add: columns_def)
qed

lemma fit_passthrough:
  assumes f: "fit self0 T = (self, None)" and d: "distinct (columns T)"
    and k: "k \<in> set (series T)" and nk: "dtag_of (cdtype k) \<notin> set (dtypes self0)"
  obtains fc where "final_columns self = Some fc" and "cname k \<in> set fc"
proof -
  from f obtain sel X1 where
    sel: "select_dtypes (dtypes self0) T = Inr sel"
    and g: "get_dummies T (Some (columns sel)) = Inr X1"
    and s: "self = self0\<lparr>input_columns := Some (columns sel), final_columns := Some (columns X1)\<rparr>"
    by (rule fit_parts)
  from sel have "columns sel = map cname (filter (\<lambda>c. dtag_of (cdtype c) \<in> set (dtypes self0)) (series T))"
    by (auto simp: select_dtypes_def columns_def split: if_splits)
  with g have "cname k \<in> set (columns X1)"
    using passthrough_in_expansion [OF d k, of "\<lambda>c. dtag_of (cdtype c) \<in> set (dtypes self0)" X1] nk
    by simp
  with s that show ?thesis by simp
qed

section \<open>The notebook's demonstration\<close>

lemma fit_df1: "fit (init None) df1 = (fitted1, None)"
  by code_simp

lemma expand_df1: "get_dummies df1 (input_columns fitted1) = Inr df1_encoded"
  by code_simp

lemma expand_df2: "get_dummies df2 (input_columns fitted1) = Inr df2_dummies"
  by code_simp

lemma transform_df2: "transform fitted1 df2 = Inr df2_encoded"
  by code_simp

lemma final_fitted1:
  "final_columns fitted1 =
     Some [''foo'', ''bar_a'', ''bar_c'', ''baz_b'', ''baz_d'', ''grok_hi'', ''grok_there'']"
  by code_simp

section \<open>The output schema of transform\<close>

text \<open>
  C1. A successful transform has run the expansion and read \<open>final_columns\<close>; the
  names of its output columns are the names in \<open>final_columns\<close>, so every column of
  the expansion whose name is not among them is discarded; and when the expansion's column
  names are pairwise distinct, the output's column sequence is exactly \<open>final_columns\<close>,
  in that order.
\<close>

theorem transform_columns:
  assumes "transform self X = Inr Y"
  shows "\<exists>X1 fc. get_dummies X (input_columns self) = Inr X1 \<and> final_columns self = Some fc \<and>
           set (columns Y) = set fc \<and> (distinct (columns X1) \<longrightarrow> columns Y = fc)"
proof -
  from assms obtain X1 fc where
    "get_dummies X (input_columns self) = Inr X1" and "final_columns self = Some fc"
    by (rule transform_Inr_parts)
  with transform_names [OF assms this] show ?thesis by blast
qed

text \<open>
  On \<open>df2\<close> the expansion has the columns \<open>new\<close>, \<open>baz_e\<close> and \<open>grok_whoa\<close>,
  which the fitted schema lacks; the output has the seven fitted columns in order.
\<close>

theorem transform_columns_witness:
  "transform fitted1 df2 = Inr df2_encoded \<and>
   columns df2_encoded =
     [''foo'', ''bar_a'', ''bar_c'', ''baz_b'', ''baz_d'', ''grok_hi'', ''grok_there'']"
proof -
  have d: "distinct (columns df2_dummies)" by code_simp
  from transform_columns [OF transform_df2] d show ?thesis
    by (simp add: transform_df2 expand_df2 final_fitted1)
qed

text \<open>
  Without distinct names the sequence can differ. Fitted on a frame with the one text
  column \<open>bar\<close>, the schema is \<open>bar_a\<close>; a frame that also has a numeric column
  \<open>bar_a\<close> expands to two columns of that name, and selecting the label returns both.
\<close>

theorem transform_columns_counterexample:
  "fit (init None) (only_bar ''a'') =
     (\<lparr>input_columns = Some [''bar''], final_columns = Some [''bar_a''],
       dtypes = [TObject, TCategory]\<rparr>, None) \<and>
   map_sum id columns (transform (fst (fit (init None) (only_bar ''a''))) (bar_a_and_bar ''a''))
     = Inr [''bar_a'', ''bar_a'']"
  by code_simp

text \<open>
  C2. In a successful transform, a name of \<open>final_columns\<close> that is absent from the
  columns of the expansion names a column of the output, and the cells of every output
  column of that name are zeros, as many as the input frame has rows.
\<close>

theorem transform_zero_fills:
  assumes "transform self X = Inr Y"
    and "get_dummies X (input_columns self) = Inr X1"
    and "final_columns self = Some fc"
    and "c \<in> set fc" and "c \<notin> set (columns X1)"
  shows "filter (\<lambda>k. cname k = c) (series Y) \<noteq> [] \<and>
         list_all (\<lambda>k. cvalues k = replicate (index_len X) (IntV 0))
           (filter (\<lambda>k. cname k = c) (series Y))"
  using transform_zero_cells [OF assms(2-5)] assms(1) by auto

text \<open>
  \<open>df2\<close> has three rows and no value \<open>d\<close> in \<open>baz\<close>: the output column \<open>baz_d\<close>
  is three zeros.
\<close>

theorem transform_zero_fills_witness:
  "transform (fst (fit (init None) df1)) df2 = Inr df2_encoded \<and>
   filter (\<lambda>k. cname k = ''baz_d'') (series df2_encoded) \<noteq> [] \<and>
   list_all (\<lambda>k. cvalues k = replicate (index_len df2) (IntV 0))
     (filter (\<lambda>k. cname k = ''baz_d'') (series df2_encoded)) \<and>
   replicate (index_len df2) (IntV 0) = [IntV 0, IntV 0, IntV 0]"
proof -
  have t: "transform (fst (fit (init None) df1)) df2 = Inr df2_encoded"
    by code_simp
  have g: "get_dummies df2 (input_columns (fst (fit (init None) df1))) = Inr df2_dummies"
    by code_simp
  have f: "final_columns (fst (fit (init None) df1)) =
     Some [''foo'', ''bar_a'', ''bar_c'', ''baz_b'', ''baz_d'', ''grok_hi'', ''grok_there'']"
    by code_simp
  have c: "''baz_d'' \<in> set [''foo'', ''bar_a'', ''bar_c'', ''baz_b'', ''baz_d'', ''grok_hi'', ''grok_there'']"
    by simp
  have n: "''baz_d'' \<notin> set (columns df2_dummies)" by code_simp
  have r: "replicate (index_len df2) (IntV 0) = [IntV 0, IntV 0, IntV 0]" by code_simp
  from transform_zero_fills [OF t g f c n] t r show ?thesis
    by simp
qed

section \<open>When transform succeeds\<close>




section \<open>Calls before fit\<close>

lemma transform_unfit:
  "transform (init ds) X = (if series X = [] then Inl ValueError else Inl TypeError)"
proof (cases "series X = []")
  case True
  then show ?thesis
    by (simp add: transform_def transform_ord_def init_def get_dummies_None_no_columns)
next
  case False
  then obtain X1 where "get_dummies X None = Inr X1"
    using get_dummies_None_ok by blast
  with False show ?thesis
    by (simp add: transform_def transform_ord_def init_def)
qed

text \<open>
  C4. On an encoder that was never fitted both calls fail and return nothing, but the
  encoder does not look at its state: \<open>get_feature_names\<close> raises the TypeError of
  \<open>tuple(None)\<close>; \<open>transform\<close> runs the expansion first and then raises the
  TypeError of \<open>set(None)\<close>, and on a frame without columns it raises the ValueError of
  the expansion.
\<close>

theorem unfit_calls_fail:
  "transform (init ds) X = (if series X = [] then Inl ValueError else Inl TypeError) \<and>
   get_feature_names (init ds) = Inl TypeError"
proof
  show "transform (init ds) X = (if series X = [] then Inl ValueError else Inl TypeError)"
    by (rule transform_unfit)
  show "get_feature_names (init ds) = Inl TypeError"
    by (simp add: get_feature_names_def init_def)
qed

text \<open>
  The error on a frame without columns does not come from the state: a fitted encoder
  raises the same one.
\<close>

theorem unfit_calls_fail_counterexample:
  "transform (init None) no_columns = Inl ValueError \<and>
   snd (fit (init None) only_foo) = None \<and>
   transform (fst (fit (init None) only_foo)) no_columns = Inl ValueError"
  by code_simp

section \<open>Transforming the fitted frame\<close>

text \<open>
  C5. When \<open>fit\<close> succeeds on a frame whose expansion has pairwise distinct column
  names, \<open>transform\<close> on that frame returns the expansion that \<open>fit\<close> computed, and
  \<open>fit_transform\<close> is \<open>fit\<close> followed by \<open>transform\<close> on the same frame.
\<close>

theorem transform_fit_table:
  assumes "fit self T = (self', None)"
    and "get_dummies T (input_columns self') = Inr X1"
    and "distinct (columns X1)"
  shows "transform self' T = Inr X1 \<and> fit_transform self T = (self', transform self' T)"
proof
  from assms(1) obtain sel X1' where
    g: "get_dummies T (Some (columns sel)) = Inr X1'"
    and s: "self' = self\<lparr>input_columns := Some (columns sel), final_columns := Some (columns X1')\<rparr>"
    by (rule fit_parts)
  from s g assms(2) have "X1' = X1" by simp
  with s have fc: "final_columns self' = Some (columns X1)" by simp
  show "transform self' T = Inr X1"
    using transform_closed [OF assms(2) fc] getitem_own_columns [OF assms(3)] by simp
  show "fit_transform self T = (self', transform self' T)"
    using assms(1) by (simp add: fit_transform_def)
qed

theorem transform_fit_table_witness:
  "transform fitted1 df1 = Inr df1_encoded \<and>
   fit_transform (init None) df1 = (fitted1, transform fitted1 df1)"
proof -
  have d: "distinct (columns df1_encoded)" by code_simp
  show ?thesis using fit_df1 expand_df1 d by (rule transform_fit_table)
qed

text \<open>
  A frame with a numeric column \<open>bar_a\<close> and a text column \<open>bar\<close> holding \<open>a\<close>
  expands to two columns named \<open>bar_a\<close>; \<open>transform\<close> on the same frame returns
  four columns.
\<close>

theorem transform_fit_table_counterexample:
  "snd (fit (init None) (bar_a_and_bar ''a'')) = None \<and>
   map_sum id columns
     (get_dummies (bar_a_and_bar ''a'')
        (input_columns (fst (fit (init None) (bar_a_and_bar ''a'')))))
     = Inr [''bar_a'', ''bar_a''] \<and>
   map_sum id columns
     (transform (fst (fit (init None) (bar_a_and_bar ''a''))) (bar_a_and_bar ''a''))
     = Inr [''bar_a'', ''bar_a'', ''bar_a'', ''bar_a'']"
  by code_simp

text \<open>
  C6. For a frame with at least one column, pairwise distinct column names and no column
  of a selected dtype, the selectors not being empty: \<open>fit\<close> records no categorical
  column and the frame's own column sequence, and \<open>transform\<close> returns the frame
  unchanged.
\<close>

theorem no_categorical_identity:
  assumes "dtypes self \<noteq> []" and "series T \<noteq> []" and "distinct (columns T)"
    and "list_all (\<lambda>c. dtag_of (cdtype c) \<notin> set (dtypes self)) (series T)"
  shows "fit self T = (self\<lparr>input_columns := Some [], final_columns := Some (columns T)\<rparr>, None)
         \<and> transform (fst (fit self T)) T = Inr T"
proof -
  have "filter (\<lambda>c. dtag_of (cdtype c) \<in> set (dtypes self)) (series T) = []"
    using assms(4) by (simp add: filter_empty_conv list_all_iff)
  then have sel: "select_dtypes (dtypes self) T = Inr (T\<lparr>series := []\<rparr>)"
    using assms(1) by (simp add: select_dtypes_def)
  have f: "fit self T = (self\<lparr>input_columns := Some [], final_columns := Some (columns T)\<rparr>, None)"
    using sel get_dummies_no_labels [OF assms(2)] by (simp add: fit_def columns_def)
  let ?s = "self\<lparr>input_columns := Some [], final_columns := Some (columns T)\<rparr>"
  have "transform ?s T = Inr T"
    using transform_closed [of T ?s T "columns T"] get_dummies_no_labels [OF assms(2)]
      getitem_own_columns [OF assms(3)]
    by simp
  with f show ?thesis by simp
qed

theorem no_categorical_identity_witness:
  "fit (init None) only_foo =
     ((init None)\<lparr>input_columns := Some [], final_columns := Some (columns only_foo)\<rparr>, None) \<and>
   transform (fst (fit (init None) only_foo)) only_foo = Inr only_foo"
proof -
  have a: "dtypes (init None) \<noteq> []" by code_simp
  have b: "series only_foo \<noteq> []" by code_simp
  have c: "distinct (columns only_foo)" by code_simp
  have d: "list_all (\<lambda>c. dtag_of (cdtype c) \<notin> set (dtypes (init None))) (series only_foo)"
    by code_simp
  show ?thesis using a b c d by (rule no_categorical_identity)
qed

text \<open>
  Each condition is needed. On a frame without columns the expansion raises ValueError,
  so \<open>fit\<close> fails with \<open>final_columns\<close> unset; with no selector \<open>select_dtypes\<close>
  raises ValueError; and a frame with two columns named \<open>foo\<close> comes back with four.
\<close>

theorem no_categorical_identity_counterexample:
  "fit (init None) no_columns =
     (\<lparr>input_columns = Some [], final_columns = None, dtypes = [TObject, TCategory]\<rparr>,
      Some ValueError) \<and>
   transform (fst (fit (init None) no_columns)) no_columns = Inl ValueError \<and>
   fit (init (Some [])) only_foo = (init (Some []), Some ValueError) \<and>
   final_columns (fst (fit (init None) foo_twice)) = Some [''foo'', ''foo''] \<and>
   map_sum id columns (transform (fst (fit (init None) foo_twice)) foo_twice)
     = Inr [''foo'', ''foo'', ''foo'', ''foo'']"
  by code_simp

section \<open>Fitting again\<close>

text \<open>
  C7. A second \<open>fit\<close> returns exactly when the selectors are not empty and the frame
  has a column. When it returns, the encoder is the one a fresh encoder with the same
  selectors gets from the second frame alone, and the names of the output columns of every
  later successful transform are the names it recorded, so a name that only the first
  \<open>fit\<close> recorded is not among them.
\<close>

theorem refit_replaces_state:
  "(snd (fit self1 T2) = None) = (dtypes self1 \<noteq> [] \<and> series T2 \<noteq> []) \<and>
   (snd (fit self1 T2) = None \<longrightarrow>
      fst (fit self1 T2) = fst (fit (init (Some (dtypes self1))) T2) \<and>
      (\<exists>fc2. final_columns (fst (fit self1 T2)) = Some fc2 \<and>
             (\<forall>X Y. transform (fst (fit self1 T2)) X = Inr Y \<longrightarrow> set (columns Y) = set fc2)))"
proof (intro conjI impI)
  show "(snd (fit self1 T2) = None) = (dtypes self1 \<noteq> [] \<and> series T2 \<noteq> [])"
    by (rule fit_returns_iff)
next
  assume "snd (fit self1 T2) = None"
  then have r: "fit self1 T2 = (fst (fit self1 T2), None)"
    by (metis prod.collapse)
  then obtain sel X1 where
    sel: "select_dtypes (dtypes self1) T2 = Inr sel"
    and g: "get_dummies T2 (Some (columns sel)) = Inr X1"
    and s: "fst (fit self1 T2) =
              self1\<lparr>input_columns := Some (columns sel), final_columns := Some (columns X1)\<rparr>"
    by (rule fit_parts)
  show "fst (fit self1 T2) = fst (fit (init (Some (dtypes self1))) T2)"
    using sel g s by (simp add: fit_def init_def)
  have fc: "final_columns (fst (fit self1 T2)) = Some (columns X1)"
    using s by simp
  have "set (columns Y) = set (columns X1)" if "transform (fst (fit self1 T2)) X = Inr Y" for X Y
  proof -
    from that obtain X1' where "get_dummies X (input_columns (fst (fit self1 T2))) = Inr X1'"
      by (auto elim: transform_Inr_parts)
    from transform_names [OF that this fc] show ?thesis by simp
  qed
  with fc show "\<exists>fc2. final_columns (fst (fit self1 T2)) = Some fc2 \<and>
                (\<forall>X Y. transform (fst (fit self1 T2)) X = Inr Y \<longrightarrow> set (columns Y) = set fc2)"
    by blast
qed

text \<open>
  After \<open>df1\<close>, fitting on a frame with the one column \<open>bar\<close>: the schema is
  \<open>bar_a\<close>, and \<open>transform\<close> on \<open>df2\<close> returns that column only.
\<close>

theorem refit_replaces_state_witness:
  "snd (fit (fst (fit (init None) df1)) (only_bar ''a'')) = None \<and>
   fst (fit (fst (fit (init None) df1)) (only_bar ''a'')) =
     fst (fit (init (Some (dtypes (fst (fit (init None) df1))))) (only_bar ''a'')) \<and>
   fst (fit (fst (fit (init None) df1)) (only_bar ''a'')) =
     \<lparr>input_columns = Some [''bar''], final_columns = Some [''bar_a''],
       dtypes = [TObject, TCategory]\<rparr> \<and>
   map_sum id columns (transform (fst (fit (fst (fit (init None) df1)) (only_bar ''a''))) df2)
     = Inr [''bar_a'']"
proof -
  let ?s1 = "fst (fit (init None) df1)"
  have a: "dtypes ?s1 \<noteq> []" by code_simp
  have b: "series (only_bar ''a'') \<noteq> []" by code_simp
  have c: "fst (fit ?s1 (only_bar ''a'')) =
     \<lparr>input_columns = Some [''bar''], final_columns = Some [''bar_a''],
       dtypes = [TObject, TCategory]\<rparr>"
    by code_simp
  have t: "map_sum id columns (transform (fst (fit ?s1 (only_bar ''a''))) df2) = Inr [''bar_a'']"
    by code_simp
  from refit_replaces_state [of ?s1 "only_bar ''a''"] a b
  have "snd (fit ?s1 (only_bar ''a'')) = None"
    and "fst (fit ?s1 (only_bar ''a'')) = fst (fit (init (Some (dtypes ?s1))) (only_bar ''a''))"
    by simp_all
  with c t show ?thesis by simp
qed

text \<open>
  A second \<open>fit\<close> that raises does not replace the state: on a frame without columns
  it has assigned \<open>input_columns\<close> when the expansion raises, \<open>final_columns\<close> is
  still the schema of \<open>df1\<close>, and a later \<open>transform\<close> returns all of its names.
\<close>

theorem refit_replaces_state_counterexample:
  "snd (fit (init None) df1) = None \<and>
   fit (fst (fit (init None) df1)) no_columns =
     (\<lparr>input_columns = Some [],
       final_columns =
         Some [''foo'', ''bar_a'', ''bar_c'', ''baz_b'', ''baz_d'', ''grok_hi'', ''grok_there''],
       dtypes = [TObject, TCategory]\<rparr>, Some ValueError) \<and>
   map_sum id columns (transform (fst (fit (fst (fit (init None) df1)) no_columns)) only_foo)
     = Inr [''foo'', ''bar_a'', ''bar_c'', ''baz_b'', ''baz_d'', ''grok_hi'', ''grok_there'']"
  by code_simp

text \<open>
  C8. When the selectors are not empty and the frame has a column, \<open>fit\<close> returns,
  and \<open>get_feature_names\<close> on the fitted encoder returns \<open>final_columns\<close>, the column
  sequence of the expansion that \<open>fit\<close> computed from the frame and its selected columns.
\<close>

theorem get_feature_names_after_fit:
  assumes "dtypes self \<noteq> []" and "series T \<noteq> []"
  shows "\<exists>sel X1. select_dtypes (dtypes self) T = Inr sel \<and>
           get_dummies T (Some (columns sel)) = Inr X1 \<and>
           snd (fit self T) = None \<and>
           final_columns (fst (fit self T)) = Some (columns X1) \<and>
           get_feature_names (fst (fit self T)) = Inr (columns X1)"
proof -
  from fit_returns [OF assms] obtain sel X1 where
    "select_dtypes (dtypes self) T = Inr sel"
    "get_dummies T (Some (columns sel)) = Inr X1"
    "fit self T = (self\<lparr>input_columns := Some (columns sel),
                          final_columns := Some (columns X1)\<rparr>, None)"
    by blast
  then show ?thesis by (simp add: get_feature_names_def)
qed

theorem get_feature_names_after_fit_witness:
  "snd (fit (init None) df1) = None \<and>
   get_dummies df1 (Some [''bar'', ''baz'', ''grok'']) = Inr df1_encoded \<and>
   get_feature_names (fst (fit (init None) df1)) = Inr (columns df1_encoded) \<and>
   columns df1_encoded =
     [''foo'', ''bar_a'', ''bar_c'', ''baz_b'', ''baz_d'', ''grok_hi'', ''grok_there'']"
proof -
  have a: "dtypes (init None) \<noteq> []" by code_simp
  have b: "series df1 \<noteq> []" by code_simp
  have s: "select_dtypes (dtypes (init None)) df1 =
             Inr (df1\<lparr>series := tl (series df1)\<rparr>)"
    by code_simp
  have c: "columns (df1\<lparr>series := tl (series df1)\<rparr>) = [''bar'', ''baz'', ''grok'']"
    by code_simp
  have g: "get_dummies df1 (Some [''bar'', ''baz'', ''grok'']) = Inr df1_encoded"
    by code_simp
  have n: "columns df1_encoded =
     [''foo'', ''bar_a'', ''bar_c'', ''baz_b'', ''baz_d'', ''grok_hi'', ''grok_there'']"
    by code_simp
  from get_feature_names_after_fit [OF a b] s c g n show ?thesis
    by auto
qed

text \<open>
  On a frame without columns, and with no selector, \<open>fit\<close> raises before it assigns
  \<open>final_columns\<close>; \<open>get_feature_names\<close> after it raises TypeError.
\<close>

theorem get_feature_names_after_fit_counterexample:
  "fit (init None) no_columns =
     (\<lparr>input_columns = Some [], final_columns = None, dtypes = [TObject, TCategory]\<rparr>,
      Some ValueError) \<and>
   get_feature_names (fst (fit (init None) no_columns)) = Inl TypeError \<and>
   fit (init (Some [])) only_foo = (init (Some []), Some ValueError) \<and>
   get_feature_names (fst (fit (init (Some [])) only_foo)) = Inl TypeError"
  by code_simp

section \<open>The order of the loop over the missing names\<close>

text \<open>
  C9. \<open>fit\<close>, \<open>get_feature_names\<close> and \<open>fit_transform\<close> are functions of the encoder
  and the frame. The one place where an order is not fixed is the loop over the set of
  missing names in \<open>transform\<close>: whatever order the set is run through, the result is
  the same.
\<close>

theorem transform_order_independent:
  assumes "\<And>ms. distinct ms \<Longrightarrow> distinct (ord ms) \<and> set (ord ms) = set ms"
  shows "transform_ord ord self X = transform self X"
proof (cases "get_dummies X (input_columns self)")
  case (Inl e)
  then show ?thesis by (simp add: transform_def transform_ord_def)
next
  case (Inr X1)
  show ?thesis
  proof (cases "final_columns self")
    case None
    with Inr show ?thesis by (simp add: transform_def transform_ord_def)
  next
    case (Some fc)
    show ?thesis
      using transform_ord_closed [OF Inr Some assms] transform_closed [OF Inr Some]
      by simp
  qed
qed

text \<open>
  On \<open>df2\<close> two names are missing; running through them in reverse gives the same
  frame.
\<close>

theorem transform_order_independent_witness:
  "missing_names [''foo'', ''bar_a'', ''bar_c'', ''baz_b'', ''baz_d'', ''grok_hi'', ''grok_there'']
     (columns df2_dummies) = [''baz_d'', ''grok_hi''] \<and>
   transform_ord rev fitted1 df2 = transform fitted1 df2"
proof -
  have "missing_names [''foo'', ''bar_a'', ''bar_c'', ''baz_b'', ''baz_d'', ''grok_hi'', ''grok_there'']
     (columns df2_dummies) = [''baz_d'', ''grok_hi'']"
    by code_simp
  moreover have "transform_ord rev fitted1 df2 = transform fitted1 df2"
    by (rule transform_order_independent) simp
  ultimately show ?thesis by simp
qed

section \<open>A passthrough column that the frame lacks\<close>

text \<open>
  C10. Let \<open>fit\<close> return on a frame with pairwise distinct column names, and let
  \<open>k\<close> be a column of it whose dtype is not selected. If the expansion of a later frame
  succeeds and has no column of \<open>k\<close>'s name, \<open>transform\<close> returns a frame that has a
  column of that name, and the cells of every such column are zeros, as many as the later
  frame has rows.
\<close>

theorem passthrough_zero_filled:
  assumes "fit self0 T = (self, None)" and "distinct (columns T)"
    and "k \<in> set (series T)" and "dtag_of (cdtype k) \<notin> set (dtypes self0)"
    and "get_dummies X (input_columns self) = Inr X1"
    and "cname k \<notin> set (columns X1)"
  shows "\<exists>Y. transform self X = Inr Y \<and>
           filter (\<lambda>j. cname j = cname k) (series Y) \<noteq> [] \<and>
           list_all (\<lambda>j. cvalues j = replicate (index_len X) (IntV 0))
             (filter (\<lambda>j. cname j = cname k) (series Y))"
proof -
  from assms(1-4) obtain fc where fc: "final_columns self = Some fc" and kfc: "cname k \<in> set fc"
    by (rule fit_passthrough)
  show ?thesis
    using assms(5) fc kfc assms(6) by (rule transform_zero_cells)
qed

text \<open>
  \<open>df2\<close> without its first column \<open>foo\<close>: the output column \<open>foo\<close> is three zeros.
\<close>

theorem passthrough_zero_filled_witness:
  "(\<exists>Y. transform (fst (fit (init None) df1)) (df2\<lparr>series := tl (series df2)\<rparr>) = Inr Y \<and>
        filter (\<lambda>j. cname j = ''foo'') (series Y) \<noteq> [] \<and>
        list_all (\<lambda>j. cvalues j = replicate (index_len (df2\<lparr>series := tl (series df2)\<rparr>)) (IntV 0))
          (filter (\<lambda>j. cname j = ''foo'') (series Y))) \<and>
   replicate (index_len (df2\<lparr>series := tl (series df2)\<rparr>)) (IntV 0) = [IntV 0, IntV 0, IntV 0]"
proof
  let ?k = "\<lparr>cname = ''foo'', cdtype = Int64, cvalues = [IntV 1, IntV 2]\<rparr>"
  let ?X = "df2\<lparr>series := tl (series df2)\<rparr>"
  have f: "fit (init None) df1 = (fst (fit (init None) df1), None)" by code_simp
  have d: "distinct (columns df1)" by code_simp
  have k: "?k \<in> set (series df1)" by code_simp
  have n: "dtag_of (cdtype ?k) \<notin> set (dtypes (init None))" by code_simp
  have g: "get_dummies ?X (input_columns (fst (fit (init None) df1))) =
             Inr (df2_dummies\<lparr>series := tl (series df2_dummies)\<rparr>)"
    by code_simp
  have a: "cname ?k \<notin> set (columns (df2_dummies\<lparr>series := tl (series df2_dummies)\<rparr>))"
    by code_simp
  have c: "cname ?k = ''foo''" by simp
  from passthrough_zero_filled [OF f d k n g a]
  show "\<exists>Y. transform (fst (fit (init None) df1)) ?X = Inr Y \<and>
        filter (\<lambda>j. cname j = ''foo'') (series Y) \<noteq> [] \<and>
        list_all (\<lambda>j. cvalues j = replicate (index_len ?X) (IntV 0))
          (filter (\<lambda>j. cname j = ''foo'') (series Y))"
    unfolding c .
  show "replicate (index_len ?X) (IntV 0) = [IntV 0, IntV 0, IntV 0]"
    by code_simp
qed

text \<open>
  That the frame lacks the column is not enough. Fitted on a numeric \<open>bar_a\<close> and a
  text \<open>bar\<close> holding \<open>b\<close>, the encoder gets a frame with only \<open>bar\<close> holding
  \<open>a\<close>: the expansion produces an indicator column \<open>bar_a\<close>, which the output keeps.
  On a frame that lacks \<open>foo\<close> together with a recorded column the expansion raises
  KeyError. And when the fit frame has a numeric and a text column both named \<open>foo\<close>,
  selecting the recorded label takes both, the numeric one is expanded too, and no output
  column is named \<open>foo\<close>.
\<close>

theorem passthrough_zero_filled_counterexample:
  "fit (init None) (bar_a_and_bar ''b'') =
     (\<lparr>input_columns = Some [''bar''], final_columns = Some [''bar_a'', ''bar_b''],
       dtypes = [TObject, TCategory]\<rparr>, None) \<and>
   transform (fst (fit (init None) (bar_a_and_bar ''b''))) (only_bar ''a'') =
     Inr \<lparr>index_len = 1, series =
       [\<lparr>cname = ''bar_a'', cdtype = UInt8, cvalues = [IntV 1]\<rparr>,
        \<lparr>cname = ''bar_b'', cdtype = Int64, cvalues = [IntV 0]\<rparr>]\<rparr> \<and>
   transform (fst (fit (init None) df1)) (only_bar ''a'') = Inl KeyError \<and>
   fit (init None) foo_int_and_text =
     (\<lparr>input_columns = Some [''foo''], final_columns = Some [''foo_1'', ''foo_x''],
       dtypes = [TObject, TCategory]\<rparr>, None) \<and>
   transform (fst (fit (init None) foo_int_and_text))
       (foo_int_and_text\<lparr>series := tl (series foo_int_and_text)\<rparr>) =
     Inr \<lparr>index_len = 1, series =
       [\<lparr>cname = ''foo_1'', cdtype = Int64, cvalues = [IntV 0]\<rparr>,
        \<lparr>cname = ''foo_x'', cdtype = UInt8, cvalues = [IntV 1]\<rparr>]\<rparr>"
  by code_simp

end
